theory Spec2Isabelle
  imports Main
begin

section \<open>Python values seen by the extension-index layer\<close>

text \<open>
  A class is its chain of bases, most derived first: \<open>Sub n b\<close> is the class named \<open>n\<close>
  derived from \<open>b\<close>. \<open>type(x).__name__\<close> is \<open>cname\<close>, \<open>isinstance(x, C)\<close> is
  \<open>issubclass (type x) C\<close>, and \<open>type(x) is C\<close> is equality of classes.
\<close>

datatype klass = Root string | Sub string klass

fun cname :: "klass \<Rightarrow> string" where
  "cname (Root n) = n"
| "cname (Sub n b) = n"

fun issubclass :: "klass \<Rightarrow> klass \<Rightarrow> bool" where
  "issubclass (Root n) d = (Root n = d)"
| "issubclass (Sub n b) d = (Sub n b = d \<or> issubclass b d)"

definition Index :: klass where
  "Index = Root ''Index''"

definition ExtensionIndex :: klass where
  "ExtensionIndex = Sub ''ExtensionIndex'' Index"

definition NDArrayBackedExtensionIndex :: klass where
  "NDArrayBackedExtensionIndex = Sub ''NDArrayBackedExtensionIndex'' ExtensionIndex"

text \<open>
  A dtype is either a NumPy dtype (\<open>isinstance(dtype, np.dtype)\<close>) or an extension
  dtype (categorical, period, interval, timezone-aware datetime), identified by its name.
  The datetime64 and timedelta64 dtypes carry their unit, so \<open>M8[ns]\<close> is
  \<open>Np (Datetime64 ''ns'')\<close>.
\<close>

datatype np_dtype =
    Datetime64 string
  | Timedelta64 string
  | Object
  | Int64
  | Float64
  | Bool

datatype dtype = Np np_dtype | Ext string

fun kind :: "np_dtype \<Rightarrow> char" where
  "kind (Datetime64 u) = CHR ''M''"
| "kind (Timedelta64 u) = CHR ''m''"
| "kind Object = CHR ''O''"
| "kind Int64 = CHR ''i''"
| "kind Float64 = CHR ''f''"
| "kind Bool = CHR ''b''"

definition is_object_dtype :: "dtype \<Rightarrow> bool" where
  "is_object_dtype d = (d = Np Object)"

definition is_dtype_equal :: "dtype \<Rightarrow> dtype \<Rightarrow> bool" where
  "is_dtype_equal a b = (a = b)"

datatype error =
    ValueError string
  | TypeError string
  | IndexError string
  | AssertionError string
  | AttributeError string
  | RecursionError

text \<open>Elements: integers (also the ticks of datetime-likes), strings, and the missing value.\<close>

datatype scalar = SInt int | SStr string | SNA

text \<open>
  The BackingArray: an array class, a fixed dtype and the sequence of elements. No method of
  this layer changes an array's content, so arrays are values.
\<close>

record array =
  acls :: klass
  adtype :: dtype
  avals :: "scalar list"

text \<open>
  An index object has the fields \<open>_simple_new\<close> sets: its class, \<open>_data\<close>, \<open>_name\<close>,
  \<open>_cache\<close> and the identity token \<open>_id\<close> that \<open>_reset_identity\<close> renews.
\<close>

record index_obj =
  cls :: klass
  data :: array
  name :: "string option"
  ident :: nat
  cache :: "(string \<times> bool list) list"

text \<open>
  Objects live in a store, addressed by references; \<open>fresh\<close> is the next unused address.
\<close>

record store =
  heap :: "nat \<Rightarrow> index_obj option"
  fresh :: nat

definition deref :: "store \<Rightarrow> nat \<Rightarrow> index_obj" where
  "deref s r = the (heap s r)"

definition wf_store :: "store \<Rightarrow> bool" where
  "wf_store s = (\<forall>r. fresh s \<le> r \<longrightarrow> heap s r = None)"

text \<open>What an operand or an operator result can be.\<close>

datatype pyobj =
    PIndex nat
  | PSeries "string option" array
  | PArray array
  | PScalar scalar
  | PTuple "pyobj list"
  | PDataFrame nat
  | NotImplemented

section \<open>Collaborators outside this module\<close>

text \<open>
  What the module takes from the rest of the library and from the concrete subclasses:
  the class attribute \<open>_data_cls\<close>, the scalar validation and the element cast of the
  array variants, the array and index classes chosen for a dtype, the hook
  \<open>_find_common_type_compat\<close>, \<open>rewrite_exception\<close>, the operators an array variant
  has (\<open>getattr(self._data, opname)\<close>, absent for some variants),
  \<open>nv.validate_repeat\<close> and \<open>DataFrame.set_index\<close>.
\<close>

record env =
  data_cls :: "klass \<Rightarrow> klass option"
  validate_scalar :: "dtype \<Rightarrow> scalar \<Rightarrow> error + scalar"
  cast_scalar :: "dtype \<Rightarrow> dtype \<Rightarrow> scalar \<Rightarrow> error + scalar"
  array_cls_for :: "dtype \<Rightarrow> klass"
  index_cls_for :: "dtype \<Rightarrow> klass"
  find_common_type_compat :: "index_obj \<Rightarrow> scalar \<Rightarrow> dtype"
  rewrite_exception :: "string \<Rightarrow> string \<Rightarrow> error \<Rightarrow> error"
  ea_getattr :: "array \<Rightarrow> string \<Rightarrow> (pyobj \<Rightarrow> error + pyobj) option"
  validate_repeat :: "int option \<Rightarrow> error option"
  set_index :: "nat \<Rightarrow> nat \<Rightarrow> pyobj"

subsection \<open>The BackingArray's sequence operations\<close>

text \<open>
  Modelled from the spec: BackingArray.insert, whose code is not part of this module. The
  item is validated under the array's dtype (a type or value error otherwise) and placed
  with list-insert semantics: a negative position counts from the end, so \<open>-1\<close> is before
  the last element. A position outside \<open>-n .. n\<close> is an index error.
\<close>

definition ea_insert :: "env \<Rightarrow> array \<Rightarrow> int \<Rightarrow> scalar \<Rightarrow> error + array" where
  "ea_insert e arr loc item =
     (let n = int (length (avals arr)) in
      if loc < - n \<or> n < loc then Inl (IndexError ''index out of bounds'')
      else (case validate_scalar e (adtype arr) item of
              Inl err \<Rightarrow> Inl err
            | Inr v \<Rightarrow>
                (let i = nat (if loc < 0 then loc + n else loc)
                 in Inr (arr\<lparr>avals := take i (avals arr) @ [v] @ drop i (avals arr)\<rparr>))))"

text \<open>
  Modelled from the spec: BackingArray.delete. The positions are removed; a negative
  position \<open>p\<close> names element \<open>n + p\<close>, so \<open>-1\<close> is the last element; a position outside
  \<open>-n .. n - 1\<close> is an index error.
\<close>

fun delete_positions :: "nat list \<Rightarrow> nat \<Rightarrow> 'a list \<Rightarrow> 'a list" where
  "delete_positions ps k [] = []"
| "delete_positions ps k (x # xs) =
     (if k \<in> set ps then delete_positions ps (Suc k) xs
      else x # delete_positions ps (Suc k) xs)"

definition ea_delete :: "array \<Rightarrow> int list \<Rightarrow> error + array" where
  "ea_delete arr loc =
     (let n = int (length (avals arr)) in
      if \<exists>p \<in> set loc. p < - n \<or> n \<le> p then Inl (IndexError ''index out of bounds'')
      else Inr (arr\<lparr>avals :=
             delete_positions (map (\<lambda>p. nat (if p < 0 then p + n else p)) loc) 0 (avals arr)\<rparr>))"

text \<open>
  Modelled from the spec: BackingArray.repeat. Every element is repeated; the counts are
  one number for all elements or one number per element, and none may be negative.
\<close>

datatype repeats = Rep int | Reps "int list"

definition ea_repeat :: "array \<Rightarrow> repeats \<Rightarrow> error + array" where
  "ea_repeat arr reps =
     (case reps of
        Rep c \<Rightarrow>
          if c < 0 then Inl (ValueError ''negative dimensions are not allowed'')
          else Inr (arr\<lparr>avals := concat (map (replicate (nat c)) (avals arr))\<rparr>)
      | Reps cs \<Rightarrow>
          if length cs \<noteq> length (avals arr) then Inl (ValueError ''operands could not be broadcast'')
          else if \<exists>c \<in> set cs. c < 0 then Inl (ValueError ''repeats may not contain negative values'')
          else Inr (arr\<lparr>avals :=
                 concat (map (\<lambda>(c, x). replicate (nat c) x) (zip cs (avals arr)))\<rparr>))"

text \<open>
  Modelled from the spec: BackingArray.astype, a safe cast of every element to the target
  dtype that fails when one element has no conversion. The result is an array of the target
  dtype, of the array class that holds that dtype.
\<close>

fun cast_all :: "(scalar \<Rightarrow> error + scalar) \<Rightarrow> scalar list \<Rightarrow> error + scalar list" where
  "cast_all f [] = Inr []"
| "cast_all f (x # xs) =
     (case f x of
        Inl err \<Rightarrow> Inl err
      | Inr y \<Rightarrow> (case cast_all f xs of Inl err \<Rightarrow> Inl err | Inr ys \<Rightarrow> Inr (y # ys)))"

definition ea_astype :: "env \<Rightarrow> array \<Rightarrow> dtype \<Rightarrow> bool \<Rightarrow> error + array" where
  "ea_astype e arr dt copy =
     (case cast_all (cast_scalar e (adtype arr) dt) (avals arr) of
        Inl err \<Rightarrow> Inl err
      | Inr vs \<Rightarrow> Inr \<lparr>acls = array_cls_for e dt, adtype = dt, avals = vs\<rparr>)"

text \<open>
  Modelled from the spec: BackingArray.equals, structural equality: same array class, same
  dtype, same elements.
\<close>

definition ea_equals :: "array \<Rightarrow> array \<Rightarrow> bool" where
  "ea_equals a b = (acls a = acls b \<and> adtype a = adtype b \<and> avals a = avals b)"

subsection \<open>The generic Index base\<close>

text \<open>
  Creating an object: \<open>object.__new__(cls)\<close>, the field assignments and
  \<open>_reset_identity\<close>, which gives the object a new identity token.
\<close>

definition new_object :: "store \<Rightarrow> klass \<Rightarrow> array \<Rightarrow> string option \<Rightarrow> nat \<times> store" where
  "new_object s c arr nm =
     (fresh s,
      s\<lparr>heap := (heap s)(fresh s \<mapsto>
             \<lparr>cls = c, data = arr, name = nm, ident = Suc (fresh s), cache = []\<rparr>),
        fresh := fresh s + 2\<rparr>)"

text \<open>
  Modelled from the spec: the Index constructor \<open>Index(values, name=...)\<close>, which wraps the
  values in a new index of the class that matches their dtype.
\<close>

definition Index_new :: "env \<Rightarrow> store \<Rightarrow> array \<Rightarrow> string option \<Rightarrow> nat \<times> store" where
  "Index_new e s arr nm = new_object s (index_cls_for e (adtype arr)) arr nm"

text \<open>
  Modelled from the spec: \<open>Index(obj, name=...)\<close> on any object: an array is wrapped, an
  index is wrapped again over its data (keeping its name when none is given), anything else
  is not a collection.
\<close>

definition Index_of :: "env \<Rightarrow> store \<Rightarrow> pyobj \<Rightarrow> string option \<Rightarrow> error + nat \<times> store" where
  "Index_of e s obj nm =
     (case obj of
        PArray arr \<Rightarrow> Inr (Index_new e s arr nm)
      | PIndex r \<Rightarrow>
          Inr (Index_new e s (data (deref s r))
                 (if nm = None then name (deref s r) else nm))
      | _ \<Rightarrow> Inl (TypeError ''Index(...) must be called with a collection of some kind''))"

text \<open>Modelled from the spec: \<open>Index.copy()\<close>, a shallow copy: a new object over the same data.\<close>

definition copy_index :: "store \<Rightarrow> nat \<Rightarrow> nat \<times> store" where
  "copy_index s self =
     new_object s (cls (deref s self)) (data (deref s self)) (name (deref s self))"

text \<open>
  Modelled from the spec: \<open>Index.is_\<close> (here \<open>is_same\<close>), the identity check: the same
  object, or two objects with the same identity token.
\<close>

definition is_same :: "store \<Rightarrow> nat \<Rightarrow> pyobj \<Rightarrow> bool" where
  "is_same s self other =
     (case other of
        PIndex r \<Rightarrow> r = self \<or> ident (deref s r) = ident (deref s self)
      | _ \<Rightarrow> False)"

text \<open>
  Modelled from the spec: \<open>Index.insert\<close> of the generic base, which the retry of
  \<open>ExtensionIndex.insert\<close> reaches when the cast copy is not an extension index: the
  in-dtype insert into its values; a failure propagates.
\<close>

definition Index_insert :: "env \<Rightarrow> store \<Rightarrow> nat \<Rightarrow> int \<Rightarrow> scalar \<Rightarrow> error + nat \<times> store" where
  "Index_insert e s self loc item =
     (case ea_insert e (data (deref s self)) loc item of
        Inl err \<Rightarrow> Inl err
      | Inr arr \<Rightarrow> Inr (new_object s (cls (deref s self)) arr (name (deref s self))))"

text \<open>
  Modelled from the spec: \<open>get_op_result_name\<close>, the name reconciliation: when both
  operands are named indexes or series and the names agree, that name; otherwise unset.
\<close>

definition match_name :: "string option \<Rightarrow> string option \<Rightarrow> string option" where
  "match_name a b = (if a \<noteq> None \<and> b \<noteq> None \<and> a = b then a else None)"

definition get_op_result_name :: "store \<Rightarrow> nat \<Rightarrow> pyobj \<Rightarrow> string option" where
  "get_op_result_name s self other =
     (case other of
        PIndex r \<Rightarrow> match_name (name (deref s self)) (name (deref s r))
      | PSeries nm vals \<Rightarrow> match_name (name (deref s self)) nm
      | _ \<Rightarrow> None)"

section \<open>The module\<close>

subsection \<open>Construction\<close>

definition simple_new ::
  "env \<Rightarrow> store \<Rightarrow> klass \<Rightarrow> array \<Rightarrow> string option \<Rightarrow> error + nat \<times> store" where
  "simple_new e s c arr nm =
     (case data_cls e c of
        None \<Rightarrow> Inl (AttributeError ''_data_cls'')
      | Some dc \<Rightarrow>
          if issubclass (acls arr) dc then Inr (new_object s c arr nm)
          else Inl (AssertionError (cname (acls arr))))"

subsection \<open>Delegation: \<open>inherit_from_data\<close>\<close>


subsection \<open>Comparison and arithmetic operators\<close>

definition maybe_unwrap_index :: "store \<Rightarrow> pyobj \<Rightarrow> pyobj" where
  "maybe_unwrap_index s obj =
     (case obj of PIndex r \<Rightarrow> PArray (data (deref s r)) | _ \<Rightarrow> obj)"

definition make_wrapped_comparison_op ::
  "env \<Rightarrow> string \<Rightarrow> store \<Rightarrow> nat \<Rightarrow> pyobj \<Rightarrow> error + pyobj" where
  "make_wrapped_comparison_op e opname s self other =
     (let other1 = (case other of PSeries nm vals \<Rightarrow> PArray vals | _ \<Rightarrow> other);
          other2 = maybe_unwrap_index s other1
      in (case ea_getattr e (data (deref s self)) opname of
            None \<Rightarrow> Inl (AttributeError opname)
          | Some op \<Rightarrow> op other2))"

text \<open>
  \<open>_wrap_arithmetic_op\<close>: a tuple of two results is wrapped component by component; a
  result that is not an index is made one; the result's name is then set.
\<close>

fun wrap_arithmetic_op ::
  "env \<Rightarrow> store \<Rightarrow> nat \<Rightarrow> pyobj \<Rightarrow> pyobj \<Rightarrow> error + pyobj \<times> store" where
  "wrap_arithmetic_op e s self other NotImplemented = Inr (NotImplemented, s)"
| "wrap_arithmetic_op e s self other (PTuple [a, b]) =
     (case wrap_arithmetic_op e s self other a of
        Inl err \<Rightarrow> Inl err
      | Inr (ra, s1) \<Rightarrow>
          (case wrap_arithmetic_op e s1 self other b of
             Inl err \<Rightarrow> Inl err
           | Inr (rb, s2) \<Rightarrow> Inr (PTuple [ra, rb], s2)))"
| "wrap_arithmetic_op e s self other (PTuple rs) = Inl (AssertionError [])"
| "wrap_arithmetic_op e s self other (PIndex r) =
     Inr (PIndex r,
          s\<lparr>heap := (heap s)(r \<mapsto> (deref s r)\<lparr>name := get_op_result_name s self other\<rparr>)\<rparr>)"
| "wrap_arithmetic_op e s self other result =
     (case Index_of e s result None of
        Inl err \<Rightarrow> Inl err
      | Inr (r, s1) \<Rightarrow>
          Inr (PIndex r,
               s1\<lparr>heap := (heap s1)(r \<mapsto> (deref s1 r)\<lparr>name := get_op_result_name s1 self other\<rparr>)\<rparr>))"

definition defers_to_other :: "store \<Rightarrow> pyobj \<Rightarrow> bool" where
  "defers_to_other s other =
     (case other of
        PIndex r \<Rightarrow>
          issubclass (cls (deref s r)) Index
          \<and> is_object_dtype (adtype (data (deref s r)))
          \<and> cls (deref s r) \<noteq> Index
      | _ \<Rightarrow> False)"

definition make_wrapped_arith_op ::
  "env \<Rightarrow> string \<Rightarrow> store \<Rightarrow> nat \<Rightarrow> pyobj \<Rightarrow> error + pyobj \<times> store" where
  "make_wrapped_arith_op e opname s self other =
     (if defers_to_other s other then Inr (NotImplemented, s)
      else (case ea_getattr e (data (deref s self)) opname of
              None \<Rightarrow>
                Inl (TypeError (''cannot perform '' @ opname @ '' with this index type: ''
                                @ cname (cls (deref s self))))
            | Some meth \<Rightarrow>
                (case meth (maybe_unwrap_index s other) of
                   Inl err \<Rightarrow> Inl err
                 | Inr result \<Rightarrow> wrap_arithmetic_op e s self other result)))"

subsection \<open>Structural operations of \<open>ExtensionIndex\<close>\<close>

definition delete :: "env \<Rightarrow> store \<Rightarrow> nat \<Rightarrow> int list \<Rightarrow> error + nat \<times> store" where
  "delete e s self loc =
     (case ea_delete (data (deref s self)) loc of
        Inl err \<Rightarrow> Inl err
      | Inr arr \<Rightarrow> simple_new e s (cls (deref s self)) arr (name (deref s self)))"

definition repeat ::
  "env \<Rightarrow> store \<Rightarrow> nat \<Rightarrow> repeats \<Rightarrow> int option \<Rightarrow> error + nat \<times> store" where
  "repeat e s self reps axis =
     (case validate_repeat e axis of
        Some err \<Rightarrow> Inl err
      | None \<Rightarrow>
          (case ea_repeat (data (deref s self)) reps of
             Inl err \<Rightarrow> Inl err
           | Inr result \<Rightarrow> simple_new e s (cls (deref s self)) result (name (deref s self))))"

text \<open>
  \<open>astype\<close>. \<open>pandas_dtype\<close> normalises a dtype specification; the model is given the
  dtype itself. \<open>self.dtype\<close> is the dtype of \<open>_data\<close>.
\<close>

definition astype :: "env \<Rightarrow> store \<Rightarrow> nat \<Rightarrow> dtype \<Rightarrow> bool \<Rightarrow> error + nat \<times> store" where
  "astype e s self dt copy =
     (let self_dtype = adtype (data (deref s self)) in
      if is_dtype_equal self_dtype dt then
        (if \<not> copy then Inr (self, s) else Inr (copy_index s self))
      else if (case (self_dtype, dt) of
                 (Np sd, Np d) \<Rightarrow> kind d = CHR ''M'' \<and> d \<noteq> Datetime64 ''ns''
               | _ \<Rightarrow> False)
      then Inl (TypeError (''Cannot cast '' @ cname (cls (deref s self)) @ '' to dtype''))
      else (case ea_astype e (data (deref s self)) dt copy of
              Inl err \<Rightarrow>
                Inl (rewrite_exception e (cname (acls (data (deref s self))))
                       (cname (cls (deref s self))) err)
            | Inr new_values \<Rightarrow> Inr (Index_new e s new_values (name (deref s self)))))"

text \<open>
  \<open>insert\<close>. The retry \<open>self.astype(dtype).insert(loc, item)\<close> is a method call on the
  cast copy: \<open>ExtensionIndex.insert\<close> again when the copy is an extension index, the generic
  base's insert otherwise. The first argument bounds the depth of these calls, as the
  interpreter's recursion limit does.
\<close>

definition is_type_or_value_error :: "error \<Rightarrow> bool" where
  "is_type_or_value_error err =
     (case err of ValueError m \<Rightarrow> True | TypeError m \<Rightarrow> True | _ \<Rightarrow> False)"

fun insert_index ::
  "nat \<Rightarrow> env \<Rightarrow> store \<Rightarrow> nat \<Rightarrow> int \<Rightarrow> scalar \<Rightarrow> error + nat \<times> store" where
  "insert_index 0 e s self loc item = Inl RecursionError"
| "insert_index (Suc depth) e s self loc item =
     (case ea_insert e (data (deref s self)) loc item of
        Inr result \<Rightarrow> simple_new e s (cls (deref s self)) result (name (deref s self))
      | Inl err \<Rightarrow>
          if is_type_or_value_error err then
            (let dt = find_common_type_compat e (deref s self) item in
             case astype e s self dt True of
               Inl err2 \<Rightarrow> Inl err2
             | Inr (r, s1) \<Rightarrow>
                 if issubclass (cls (deref s1 r)) ExtensionIndex
                 then insert_index depth e s1 r loc item
                 else Index_insert e s1 r loc item)
          else Inl err)"

definition equals :: "store \<Rightarrow> nat \<Rightarrow> pyobj \<Rightarrow> bool" where
  "equals s self other =
     (if is_same s self other then True
      else (case other of
              PIndex r \<Rightarrow>
                if \<not> issubclass (cls (deref s r)) (cls (deref s self)) then False
                else ea_equals (data (deref s self)) (data (deref s r))
            | _ \<Rightarrow> False))"

section \<open>A concrete configuration\<close>

text \<open>
  The datetime, timedelta, period and categorical variants, as far as the operations above
  consult them; used to evaluate the operations on concrete indexes.
\<close>

definition ndarray :: klass where
  "ndarray = Root ''ndarray''"

definition NDArrayBackedExtensionArray :: klass where
  "NDArrayBackedExtensionArray = Sub ''NDArrayBackedExtensionArray'' (Root ''ExtensionArray'')"

definition DatetimeArray :: klass where
  "DatetimeArray = Sub ''DatetimeArray'' NDArrayBackedExtensionArray"

definition Categorical :: klass where
  "Categorical = Sub ''Categorical'' NDArrayBackedExtensionArray"

definition DatetimeIndex :: klass where
  "DatetimeIndex = Sub ''DatetimeIndex'' NDArrayBackedExtensionIndex"

definition CategoricalIndex :: klass where
  "CategoricalIndex = Sub ''CategoricalIndex'' NDArrayBackedExtensionIndex"

definition TimedeltaArray :: klass where
  "TimedeltaArray = Sub ''TimedeltaArray'' NDArrayBackedExtensionArray"




text \<open>
  \<open>str.replace\<close> for a non-empty pattern, as \<open>rewrite_exception\<close> uses it on the message
  of an exception with the name of a class.
\<close>

fun replace :: "string \<Rightarrow> string \<Rightarrow> string \<Rightarrow> string" where
  "replace old new [] = []"
| "replace old new (c # cs) =
     (if old \<noteq> [] \<and> take (length old) (c # cs) = old
      then new @ replace old new (drop (length old) (c # cs))
      else c # replace old new cs)"

definition M8ns :: dtype where
  "M8ns = Np (Datetime64 ''ns'')"

definition pandas_env :: env where
  "pandas_env =
     \<lparr>data_cls = (\<lambda>c. if issubclass c DatetimeIndex then Some DatetimeArray
                       else if issubclass c CategoricalIndex then Some Categorical
                       else None),
      validate_scalar = (\<lambda>d v. if d = Np Object then Inr v
                               else (case v of
                                       SStr m \<Rightarrow> Inl (TypeError ''value has the wrong type'')
                                     | _ \<Rightarrow> Inr v)),
      cast_scalar = (\<lambda>d d' v. case (d, d') of
                                 (Np (Timedelta64 u), Np (Datetime64 u')) \<Rightarrow>
                                   Inl (TypeError ''Cannot cast TimedeltaArray to dtype'')
                               | _ \<Rightarrow> Inr v),
      array_cls_for = (\<lambda>d. if d = M8ns then DatetimeArray
                            else if d = Ext ''category'' then Categorical
                            else ndarray),
      index_cls_for = (\<lambda>d. if d = M8ns then DatetimeIndex
                            else if d = Ext ''category'' then CategoricalIndex
                            else Index),
      find_common_type_compat = (\<lambda>obj item. Np Object),
      rewrite_exception = (\<lambda>old new err. case err of
                                         TypeError m \<Rightarrow> TypeError (replace old new m)
                                       | ValueError m \<Rightarrow> ValueError (replace old new m)
                                       | _ \<Rightarrow> err),
      ea_getattr = (\<lambda>arr opname.
                      if acls arr = Categorical \<and> opname = ''__add__'' then None
                      else if opname = ''__divmod__''
                      then Some (\<lambda>other. Inr (PTuple [PArray arr, PArray arr]))
                      else Some (\<lambda>other. Inr (PArray arr))),
      validate_repeat = (\<lambda>axis. case axis of
                                   None \<Rightarrow> None
                                 | Some a \<Rightarrow> Some (ValueError ''the axis parameter is not supported'')),
      set_index = (\<lambda>f r. PDataFrame f)\<rparr>"

definition dates :: array where
  "dates = \<lparr>acls = DatetimeArray, adtype = M8ns, avals = [SInt 10, SInt 20, SInt 30]\<rparr>"

definition categories :: array where
  "categories = \<lparr>acls = Categorical, adtype = Ext ''category'', avals = [SInt 1, SInt 2]\<rparr>"

definition objects :: array where
  "objects = \<lparr>acls = ndarray, adtype = Np Object, avals = [SInt 10, SInt 20, SInt 30]\<rparr>"

text \<open>
  A store with a datetime index named \<open>x\<close> at 0, an index of a subclass of
  \<open>DatetimeIndex\<close> over the same data at 2, a categorical index at 4, an object-dtype index
  of a subclass of \<open>Index\<close> at 6 and a second datetime index named \<open>y\<close> at 8.
\<close>

definition sample_store :: store where
  "sample_store =
     \<lparr>heap = [0 \<mapsto> \<lparr>cls = DatetimeIndex, data = dates, name = Some ''x'', ident = 1, cache = []\<rparr>,
              2 \<mapsto> \<lparr>cls = Sub ''MyDatetimeIndex'' DatetimeIndex, data = dates, name = Some ''x'',
                     ident = 3, cache = []\<rparr>,
              4 \<mapsto> \<lparr>cls = CategoricalIndex, data = categories, name = None, ident = 5, cache = []\<rparr>,
              6 \<mapsto> \<lparr>cls = Sub ''MyIndex'' Index, data = objects, name = None, ident = 7, cache = []\<rparr>,
              8 \<mapsto> \<lparr>cls = DatetimeIndex, data = dates, name = Some ''y'', ident = 9, cache = []\<rparr>],
      fresh = 10\<rparr>"





text \<open>
  The name an operand carries: the name of an index or of a series; anything else has none.
\<close>

definition operand_name :: "store \<Rightarrow> pyobj \<Rightarrow> string option" where
  "operand_name s other =
     (case other of
        PIndex r \<Rightarrow> name (deref s r)
      | PSeries nm vals \<Rightarrow> nm
      | _ \<Rightarrow> None)"

text \<open>
  \<open>extends s s'\<close>: every object of \<open>s\<close> is still in \<open>s'\<close>, with all its fields as they
  were.
\<close>

definition extends :: "store \<Rightarrow> store \<Rightarrow> bool" where
  "extends s s' = (\<forall>a obj. heap s a = Some obj \<longrightarrow> heap s' a = Some obj)"

section \<open>Auxiliary facts\<close>

lemmas sample_defs =
  sample_store_def pandas_env_def dates_def categories_def objects_def M8ns_def
  DatetimeIndex_def CategoricalIndex_def DatetimeArray_def Categorical_def ndarray_def
  NDArrayBackedExtensionArray_def NDArrayBackedExtensionIndex_def ExtensionIndex_def Index_def

lemma issubclass_refl: "issubclass c c"
  by (cases c) auto

lemma extends_refl: "extends s s"
  by (simp add: extends_def)

lemma extends_trans: "extends s s1 \<Longrightarrow> extends s1 s2 \<Longrightarrow> extends s s2"
  by (simp add: extends_def)

lemma new_object_props:
  assumes "wf_store s" and "new_object s c arr nm = (r, s')"
  shows "wf_store s'" and "heap s r = None" and "extends s s'"
    and "heap s' r = Some \<lparr>cls = c, data = arr, name = nm, ident = Suc (fresh s), cache = []\<rparr>"
  using assms by (auto simp: new_object_def wf_store_def extends_def)

lemma simple_new_props:
  assumes "wf_store s" and "simple_new e s c arr nm = Inr (r, s')"
  shows "wf_store s'" and "heap s r = None" and "extends s s'"
    and "heap s' r = Some \<lparr>cls = c, data = arr, name = nm, ident = Suc (fresh s), cache = []\<rparr>"
  using assms new_object_props [of s c arr nm r s']
  by (auto simp: simple_new_def split: option.splits if_splits)

lemma cast_all_length: "cast_all f xs = Inr ys \<Longrightarrow> length ys = length xs"
  by (induction xs arbitrary: ys) (auto split: sum.splits)

lemma astype_props:
  assumes "wf_store s" and "heap s self = Some obj" and "astype e s self dt copy = Inr (r, s')"
  shows "wf_store s'" and "extends s s'"
    and "heap s r = None \<or> (r = self \<and> s' = s \<and> \<not> copy \<and> dt = adtype (data obj))"
    and "\<exists>o'. heap s' r = Some o' \<and> adtype (data o') = dt
           \<and> length (avals (data o')) = length (avals (data obj)) \<and> name o' = name obj"
proof -
  from assms(2) have d: "deref s self = obj" by (simp add: deref_def)
  show "wf_store s'"
    using assms new_object_props(1) [OF assms(1)]
    by (auto simp: astype_def d Let_def copy_index_def Index_new_def
        split: if_splits sum.splits prod.splits)
  show "extends s s'"
    using assms new_object_props(3) [OF assms(1)]
    by (auto simp: astype_def d Let_def copy_index_def Index_new_def extends_refl
        split: if_splits sum.splits prod.splits)
  show "heap s r = None \<or> (r = self \<and> s' = s \<and> \<not> copy \<and> dt = adtype (data obj))"
    using assms new_object_props(2) [OF assms(1)]
    by (auto simp: astype_def d Let_def copy_index_def Index_new_def is_dtype_equal_def
        split: if_splits sum.splits prod.splits)
  show "\<exists>o'. heap s' r = Some o' \<and> adtype (data o') = dt
           \<and> length (avals (data o')) = length (avals (data obj)) \<and> name o' = name obj"
    using assms new_object_props(4) [OF assms(1)]
    by (auto simp: astype_def d Let_def copy_index_def Index_new_def is_dtype_equal_def
        ea_astype_def dest: cast_all_length
        split: if_splits sum.splits prod.splits)
qed

lemma delete_props:
  assumes "wf_store s" and "delete e s self loc = Inr (r, s')"
  shows "wf_store s'" and "heap s r = None" and "extends s s'" and "heap s' r \<noteq> None"
  using assms simple_new_props [OF assms(1)]
  by (auto simp: delete_def split: sum.splits)

lemma repeat_props:
  assumes "wf_store s" and "repeat e s self reps axis = Inr (r, s')"
  shows "wf_store s'" and "heap s r = None" and "extends s s'" and "heap s' r \<noteq> None"
  using assms simple_new_props [OF assms(1)]
  by (auto simp: repeat_def split: sum.splits option.splits)

lemma Index_insert_props:
  assumes "wf_store s" and "Index_insert e s self loc item = Inr (r, s')"
  shows "wf_store s'" and "heap s r = None" and "extends s s'" and "heap s' r \<noteq> None"
  using assms new_object_props [OF assms(1)]
  by (auto simp: Index_insert_def split: sum.splits)

lemma insert_index_props:
  "wf_store s \<Longrightarrow> heap s self = Some obj \<Longrightarrow> insert_index depth e s self loc item = Inr (r, s') \<Longrightarrow>
   wf_store s' \<and> heap s r = None \<and> extends s s' \<and> heap s' r \<noteq> None"
proof (induction depth arbitrary: s self obj)
  case 0
  then show ?case by simp
next
  case (Suc depth)
  show ?case
  proof (cases "ea_insert e (data (deref s self)) loc item")
    case (Inr result)
    with Suc.prems have "simple_new e s (cls (deref s self)) result (name (deref s self)) = Inr (r, s')"
      by simp
    from simple_new_props [OF Suc.prems(1) this] show ?thesis by simp
  next
    case (Inl err)
    let ?dt = "find_common_type_compat e (deref s self) item"
    from Inl Suc.prems(3) obtain r1 s1 where
      a: "astype e s self ?dt True = Inr (r1, s1)"
      and b: "(if issubclass (cls (deref s1 r1)) ExtensionIndex
               then insert_index depth e s1 r1 loc item
               else Index_insert e s1 r1 loc item) = Inr (r, s')"
      by (auto simp: Let_def split: if_splits sum.splits)
    from astype_props [OF Suc.prems(1,2) a] obtain o1 where
      w1: "wf_store s1" and e1: "extends s s1" and h1: "heap s1 r1 = Some o1"
      by auto
    have "wf_store s' \<and> heap s1 r = None \<and> extends s1 s' \<and> heap s' r \<noteq> None"
    proof (cases "issubclass (cls (deref s1 r1)) ExtensionIndex")
      case True
      with b have "insert_index depth e s1 r1 loc item = Inr (r, s')" by simp
      from Suc.IH [OF w1 h1 this] show ?thesis .
    next
      case False
      with b have "Index_insert e s1 r1 loc item = Inr (r, s')" by simp
      from Index_insert_props [OF w1 this] show ?thesis by simp
    qed
    moreover from this e1 have "heap s r = None"
      by (cases "heap s r") (auto simp: extends_def)
    ultimately show ?thesis using e1 extends_trans by blast
  qed
qed

lemma sample_store_wf: "wf_store sample_store"
  by (simp add: wf_store_def sample_store_def)

lemma sample_store_0:
  "heap sample_store 0 =
     Some \<lparr>cls = DatetimeIndex, data = dates, name = Some ''x'', ident = 1, cache = []\<rparr>"
  by (simp add: sample_store_def)

lemma sample_astype_no_copy: "astype pandas_env sample_store 0 M8ns False = Inr (0, sample_store)"
  by (simp add: astype_def is_dtype_equal_def deref_def Let_def sample_store_0 dates_def)

lemma delete_positions_single:
  "k \<le> p \<Longrightarrow> p < k + length xs \<Longrightarrow>
   delete_positions [p] k xs = take (p - k) xs @ drop (Suc (p - k)) xs"
proof (induction xs arbitrary: k)
  case Nil
  then show ?case by simp
next
  case (Cons x xs)
  show ?case
  proof (cases "k = p")
    case True
    have "delete_positions [p] (Suc p) xs = xs" for xs :: "'a list"
    proof -
      have "p < j \<Longrightarrow> delete_positions [p] j ys = ys" for j and ys :: "'a list"
        by (induction ys arbitrary: j) auto
      then show ?thesis by simp
    qed
    with True show ?thesis by simp
  next
    case False
    with Cons.prems have "Suc k \<le> p" "p < Suc k + length xs" by auto
    moreover from False Cons.prems have "p - k = Suc (p - Suc k)" by simp
    ultimately show ?thesis
      using Cons.IH [of "Suc k"] False by simp
  qed
qed

lemma reinsert_deleted:
  "p < length xs \<Longrightarrow>
   take p (take p xs @ drop (Suc p) xs) @ [xs ! p] @ drop p (take p xs @ drop (Suc p) xs) = xs"
  by (simp add: min_def id_take_nth_drop [symmetric])


lemma get_op_result_name_eq:
  "heap s self = Some obj \<Longrightarrow>
   get_op_result_name s self other =
     (if name obj \<noteq> None \<and> name obj = operand_name s other then name obj else None)"
  by (auto simp: get_op_result_name_def match_name_def operand_name_def deref_def
      split: pyobj.splits)

lemma get_op_result_name_extends:
  assumes "extends s s'" and "heap s self = Some obj"
    and "\<forall>ro. other = PIndex ro \<longrightarrow> heap s ro \<noteq> None"
  shows "get_op_result_name s' self other = get_op_result_name s self other"
proof (cases other)
  case (PIndex ro)
  with assms(3) obtain oo where "heap s ro = Some oo" by auto
  with assms(1,2) PIndex show ?thesis
    by (simp add: get_op_result_name_def deref_def extends_def)
next
  case (PSeries nm vals)
  with assms(1,2) show ?thesis
    by (simp add: get_op_result_name_def deref_def extends_def)
qed (simp_all add: get_op_result_name_def)

lemma wrap_array:
  assumes "wf_store s" and "heap s self = Some obj"
    and "\<forall>ro. other = PIndex ro \<longrightarrow> heap s ro \<noteq> None"
  shows "\<exists>r s'. wrap_arithmetic_op e s self other (PArray arr) = Inr (PIndex r, s')
           \<and> wf_store s' \<and> extends s s' \<and> heap s r = None
           \<and> (\<exists>ob. heap s' r = Some ob \<and> name ob = get_op_result_name s self other)"
proof -
  obtain r s1 where n: "new_object s (index_cls_for e (adtype arr)) arr None = (r, s1)"
    by (cases "new_object s (index_cls_for e (adtype arr)) arr None")
  from new_object_props [OF assms(1) n] have
    w1: "wf_store s1" and hn: "heap s r = None" and e1: "extends s s1"
    and h1: "heap s1 r = Some \<lparr>cls = index_cls_for e (adtype arr), data = arr, name = None,
                                ident = Suc (fresh s), cache = []\<rparr>"
    by auto
  let ?s' = "s1\<lparr>heap := (heap s1)(r \<mapsto> (deref s1 r)\<lparr>name := get_op_result_name s1 self other\<rparr>)\<rparr>"
  have w: "wrap_arithmetic_op e s self other (PArray arr) = Inr (PIndex r, ?s')"
    using n by (simp add: Index_of_def Index_new_def)
  have nm: "get_op_result_name s1 self other = get_op_result_name s self other"
    by (rule get_op_result_name_extends [OF e1 assms(2,3)])
  have "wf_store ?s'"
    using w1 h1 by (auto simp: wf_store_def)
  moreover have "extends s ?s'"
    using e1 hn by (auto simp: extends_def)
  moreover have "\<exists>ob. heap ?s' r = Some ob \<and> name ob = get_op_result_name s self other"
    using nm by simp
  ultimately show ?thesis using w hn by blast
qed

lemma sample_not_deferring:
  "\<not> defers_to_other sample_store (PIndex 2)" "\<not> defers_to_other sample_store (PIndex 8)"
  by (simp_all add: defers_to_other_def is_object_dtype_def deref_def sample_store_def
      dates_def M8ns_def)

lemma sample_operand_names:
  "operand_name sample_store (PIndex 2) = Some ''x''"
  "operand_name sample_store (PIndex 8) = Some ''y''"
  by (simp_all add: operand_name_def deref_def sample_store_def)

section \<open>Delegated methods\<close>




section \<open>Operators\<close>

text \<open>
  C2. When the right-hand operand is an index of object dtype whose class is a proper
  subclass of \<open>Index\<close>, every arithmetic operator returns \<open>NotImplemented\<close> and leaves the
  store as it is, whatever the array's operator would do. A comparison operator does not
  defer on the same operand: it unwraps it and returns what the array's comparison returns
  on the operand's data.
\<close>

theorem arith_defers_comparison_unwraps:
  "issubclass (cls (deref s r)) Index \<and> is_object_dtype (adtype (data (deref s r)))
     \<and> cls (deref s r) \<noteq> Index \<Longrightarrow>
   make_wrapped_arith_op e opname s self (PIndex r) = Inr (NotImplemented, s)
   \<and> make_wrapped_comparison_op e opname s self (PIndex r) =
       (case ea_getattr e (data (deref s self)) opname of
          None \<Rightarrow> Inl (AttributeError opname)
        | Some op \<Rightarrow> op (PArray (data (deref s r))))"
  by (simp add: make_wrapped_arith_op_def defers_to_other_def make_wrapped_comparison_op_def
      maybe_unwrap_index_def Let_def split: option.split)

theorem arith_defers_comparison_unwraps_witness:
  "(issubclass (cls (deref sample_store 6)) Index
      \<and> is_object_dtype (adtype (data (deref sample_store 6)))
      \<and> cls (deref sample_store 6) \<noteq> Index)
   \<and> make_wrapped_arith_op pandas_env ''__mul__'' sample_store 0 (PIndex 6)
       = Inr (NotImplemented, sample_store)
   \<and> make_wrapped_comparison_op pandas_env ''__eq__'' sample_store 0 (PIndex 6)
       = Inr (PArray dates)"
  using arith_defers_comparison_unwraps [of sample_store 6 pandas_env "''__mul__''" 0]
    arith_defers_comparison_unwraps [of sample_store 6 pandas_env "''__eq__''" 0]
  by (simp add: deref_def is_object_dtype_def sample_defs)

text \<open>
  C7, as stated, fails: a categorical index has no \<open>__add__\<close> on its array, yet adding an
  object-dtype index of a subclass of \<open>Index\<close> to it returns \<open>NotImplemented\<close>, not an error.
\<close>

theorem arith_missing_operator_counterexample:
  "ea_getattr pandas_env (data (deref sample_store 4)) ''__add__'' = None
   \<and> make_wrapped_arith_op pandas_env ''__add__'' sample_store 4 (PIndex 6)
       = Inr (NotImplemented, sample_store)"
  by (simp add: make_wrapped_arith_op_def defers_to_other_def deref_def is_object_dtype_def
      sample_defs)

text \<open>
  C7, amended. When the array has no such operator and the right-hand operand is not an
  object-dtype index of a proper subclass of \<open>Index\<close>, the arithmetic operator raises the
  TypeError whose message names the operator and the class of the index.
\<close>

theorem arith_missing_operator:
  "ea_getattr e (data (deref s self)) opname = None \<Longrightarrow> \<not> defers_to_other s other \<Longrightarrow>
   make_wrapped_arith_op e opname s self other =
     Inl (TypeError (''cannot perform '' @ opname @ '' with this index type: ''
                     @ cname (cls (deref s self))))"
  by (simp add: make_wrapped_arith_op_def)

theorem arith_missing_operator_witness:
  "ea_getattr pandas_env (data (deref sample_store 4)) ''__add__'' = None
   \<and> \<not> defers_to_other sample_store (PIndex 0)
   \<and> make_wrapped_arith_op pandas_env ''__add__'' sample_store 4 (PIndex 0) =
       Inl (TypeError ''cannot perform __add__ with this index type: CategoricalIndex'')"
  using arith_missing_operator [of pandas_env sample_store 4 "''__add__''" "PIndex 0"]
  by (simp add: defers_to_other_def deref_def is_object_dtype_def sample_defs)

section \<open>Equality\<close>

text \<open>
  C4, as stated, fails: an index whose class is a subclass of \<open>DatetimeIndex\<close> is not of the
  same concrete class as a \<open>DatetimeIndex\<close>, yet \<open>equals\<close> on the two, over the same data, is
  true.
\<close>

theorem equals_subclass_counterexample:
  "cls (deref sample_store 2) \<noteq> cls (deref sample_store 0)
   \<and> data (deref sample_store 2) = data (deref sample_store 0)
   \<and> equals sample_store 0 (PIndex 2) = True"
  by (simp add: equals_def is_same_def ea_equals_def deref_def sample_defs)

text \<open>
  C4, amended. \<open>equals(x, x)\<close> is true. For \<open>y\<close> that is not identical to \<open>x\<close>: when \<open>y\<close> is
  not an instance of the class of \<open>x\<close> (neither that class nor a subclass of it), \<open>equals\<close> is
  false, whatever the data; when it is, \<open>equals\<close> is the structural equality of the two
  arrays.
\<close>

theorem equals_cases:
  "equals s x (PIndex x) = True
   \<and> (\<not> is_same s x (PIndex y) \<and> \<not> issubclass (cls (deref s y)) (cls (deref s x))
        \<longrightarrow> equals s x (PIndex y) = False)
   \<and> (\<not> is_same s x (PIndex y) \<and> issubclass (cls (deref s y)) (cls (deref s x))
        \<longrightarrow> equals s x (PIndex y) = ea_equals (data (deref s x)) (data (deref s y)))"
  by (simp add: equals_def is_same_def)

theorem equals_cases_witness:
  "equals sample_store 0 (PIndex 0) = True
   \<and> (\<not> is_same sample_store 2 (PIndex 0)
        \<and> \<not> issubclass (cls (deref sample_store 0)) (cls (deref sample_store 2)))
   \<and> equals sample_store 2 (PIndex 0) = False
   \<and> (\<not> is_same sample_store 0 (PIndex 8)
        \<and> issubclass (cls (deref sample_store 8)) (cls (deref sample_store 0)))
   \<and> equals sample_store 0 (PIndex 8) = True"
  using equals_cases [of sample_store 0 0] equals_cases [of sample_store 2 0]
    equals_cases [of sample_store 0 8]
  by (simp add: is_same_def ea_equals_def deref_def sample_defs)

section \<open>Casting\<close>




text \<open>
  C5. When the requested dtype equals the current dtype, \<open>astype\<close> with \<open>copy=False\<close>
  returns the very same object and the store as it was; with \<open>copy=True\<close> it returns a new
  object with the class, data and name of the original, which stays as it was. And for any
  dtype and either value of \<open>copy\<close>: when \<open>astype\<close> returns an index, \<open>astype\<close> to the same
  dtype with \<open>copy=False\<close> on that index returns that index itself, which \<open>equals\<close> it.
\<close>

theorem astype_same_dtype:
  assumes "wf_store s" and "heap s self = Some obj"
  shows "(is_dtype_equal (adtype (data obj)) dt \<longrightarrow>
            astype e s self dt False = Inr (self, s)
            \<and> (\<exists>r s'. astype e s self dt True = Inr (r, s') \<and> heap s r = None
                 \<and> heap s' self = Some obj \<and> cls (deref s' r) = cls obj
                 \<and> data (deref s' r) = data obj \<and> name (deref s' r) = name obj))
       \<and> (\<forall>d c r1 s1. astype e s self d c = Inr (r1, s1) \<longrightarrow>
            astype e s1 r1 d False = Inr (r1, s1) \<and> equals s1 r1 (PIndex r1))"
proof -
  from assms(2) have d: "deref s self = obj" by (simp add: deref_def)
  have one: "is_dtype_equal (adtype (data obj)) dt \<Longrightarrow> astype e s self dt False = Inr (self, s)"
    by (simp add: astype_def d)
  have two: "\<exists>r s'. astype e s self dt True = Inr (r, s') \<and> heap s r = None
                 \<and> heap s' self = Some obj \<and> cls (deref s' r) = cls obj
                 \<and> data (deref s' r) = data obj \<and> name (deref s' r) = name obj"
    if eq: "is_dtype_equal (adtype (data obj)) dt"
  proof -
    obtain r s' where c: "copy_index s self = (r, s')" by (cases "copy_index s self")
    then have n: "new_object s (cls obj) (data obj) (name obj) = (r, s')"
      by (simp add: copy_index_def d)
    from new_object_props [OF assms(1) n] assms(2) have
      "heap s r = None" "heap s' self = Some obj"
      "heap s' r = Some \<lparr>cls = cls obj, data = data obj, name = name obj,
                          ident = Suc (fresh s), cache = []\<rparr>"
      by (auto simp: extends_def)
    moreover from eq c have "astype e s self dt True = Inr (r, s')"
      by (simp add: astype_def d)
    ultimately show ?thesis by (auto simp: deref_def)
  qed
  have three: "astype e s1 r1 d' False = Inr (r1, s1) \<and> equals s1 r1 (PIndex r1)"
    if a: "astype e s self d' c = Inr (r1, s1)" for d' c r1 s1
  proof -
    from astype_props(4) [OF assms a] obtain o' where
      "heap s1 r1 = Some o'" "adtype (data o') = d'" by auto
    then show ?thesis
      by (simp add: astype_def deref_def is_dtype_equal_def equals_def is_same_def)
  qed
  from one two three show ?thesis by blast
qed

theorem astype_same_dtype_witness:
  "wf_store sample_store
   \<and> heap sample_store 0 =
       Some \<lparr>cls = DatetimeIndex, data = dates, name = Some ''x'', ident = 1, cache = []\<rparr>
   \<and> is_dtype_equal (adtype dates) M8ns
   \<and> astype pandas_env sample_store 0 M8ns False = Inr (0, sample_store)
   \<and> (\<exists>r s'. astype pandas_env sample_store 0 M8ns True = Inr (r, s')
         \<and> heap sample_store r = None)
   \<and> equals sample_store 0 (PIndex 0)"
proof -
  have eq: "is_dtype_equal (adtype dates) M8ns"
    by (simp add: is_dtype_equal_def dates_def)
  from astype_same_dtype [OF sample_store_wf sample_store_0, of M8ns pandas_env] eq
    sample_astype_no_copy
  have "(\<exists>r s'. astype pandas_env sample_store 0 M8ns True = Inr (r, s')
           \<and> heap sample_store r = None)
        \<and> equals sample_store 0 (PIndex 0)"
    by (simp; blast)
  with sample_store_wf sample_store_0 eq sample_astype_no_copy show ?thesis by simp
qed

section \<open>Value semantics\<close>

text \<open>
  C9, as stated, fails: \<open>astype\<close> to the index's own dtype with \<open>copy=False\<close> returns the
  index itself, an object that was already in the store, not a new instance.
\<close>

theorem astype_returns_self_counterexample:
  "astype pandas_env sample_store 0 M8ns False = Inr (0, sample_store)
   \<and> heap sample_store 0 \<noteq> None"
  by (simp add: sample_astype_no_copy sample_store_0)

text \<open>
  C9, amended. \<open>delete\<close>, \<open>repeat\<close> and \<open>insert\<close>, when they return, return an object that
  did not exist before, and the original object is what it was: class, data, name, all
  fields. \<open>astype\<close> leaves the original as it was too, and returns a new object except when
  the dtype is the index's own and \<open>copy=False\<close>: then it returns the original itself.
\<close>

theorem mutators_leave_original:
  assumes "wf_store s" and "heap s self = Some obj"
  shows "(delete e s self loc = Inr (r, s') \<longrightarrow>
            heap s r = None \<and> heap s' r \<noteq> None \<and> heap s' self = Some obj)
       \<and> (repeat e s self reps axis = Inr (r, s') \<longrightarrow>
            heap s r = None \<and> heap s' r \<noteq> None \<and> heap s' self = Some obj)
       \<and> (insert_index depth e s self pos item = Inr (r, s') \<longrightarrow>
            heap s r = None \<and> heap s' r \<noteq> None \<and> heap s' self = Some obj)
       \<and> (astype e s self dt copy = Inr (r, s') \<longrightarrow>
            heap s' r \<noteq> None \<and> heap s' self = Some obj
            \<and> (heap s r = None \<or> (r = self \<and> s' = s \<and> \<not> copy \<and> dt = adtype (data obj))))"
proof -
  have "heap s r = None \<and> heap s' r \<noteq> None \<and> heap s' self = Some obj"
    if "delete e s self loc = Inr (r, s')"
    using delete_props [OF assms(1) that] assms(2) by (simp add: extends_def)
  moreover have "heap s r = None \<and> heap s' r \<noteq> None \<and> heap s' self = Some obj"
    if "repeat e s self reps axis = Inr (r, s')"
    using repeat_props [OF assms(1) that] assms(2) by (simp add: extends_def)
  moreover have "heap s r = None \<and> heap s' r \<noteq> None \<and> heap s' self = Some obj"
    if "insert_index depth e s self pos item = Inr (r, s')"
    using insert_index_props [OF assms that] assms(2) by (simp add: extends_def)
  moreover have "heap s' r \<noteq> None \<and> heap s' self = Some obj
            \<and> (heap s r = None \<or> (r = self \<and> s' = s \<and> \<not> copy \<and> dt = adtype (data obj)))"
    if "astype e s self dt copy = Inr (r, s')"
    using astype_props [OF assms that] assms(2) by (auto simp: extends_def)
  ultimately show ?thesis by blast
qed

theorem mutators_leave_original_witness:
  "wf_store sample_store
   \<and> heap sample_store 0 =
       Some \<lparr>cls = DatetimeIndex, data = dates, name = Some ''x'', ident = 1, cache = []\<rparr>
   \<and> (\<exists>s'. delete pandas_env sample_store 0 [1] = Inr (10, s')
          \<and> heap sample_store 10 = None \<and> heap s' 10 \<noteq> None
          \<and> heap s' 0 = heap sample_store 0)
   \<and> (\<exists>s'. repeat pandas_env sample_store 0 (Rep 2) None = Inr (10, s')
          \<and> heap s' 0 = heap sample_store 0)
   \<and> (\<exists>s'. insert_index 2 pandas_env sample_store 0 1 (SStr ''a'') = Inr (12, s')
          \<and> heap s' 0 = heap sample_store 0)
   \<and> (\<exists>s'. astype pandas_env sample_store 0 (Np Object) True = Inr (10, s')
          \<and> heap s' 0 = heap sample_store 0)"
proof -
  obtain s1 where d: "delete pandas_env sample_store 0 [1] = Inr (10, s1)"
    by (simp add: delete_def ea_delete_def simple_new_def new_object_def deref_def
        sample_defs)
  obtain s2 where r: "repeat pandas_env sample_store 0 (Rep 2) None = Inr (10, s2)"
    by (simp add: repeat_def ea_repeat_def simple_new_def new_object_def deref_def
        sample_defs)
  obtain s3 where i: "insert_index 2 pandas_env sample_store 0 1 (SStr ''a'') = Inr (12, s3)"
    by (simp add: numeral_2_eq_2 ea_insert_def astype_def ea_astype_def Index_new_def
        Index_insert_def is_dtype_equal_def is_type_or_value_error_def new_object_def
        deref_def Let_def sample_defs)
  obtain s4 where a: "astype pandas_env sample_store 0 (Np Object) True = Inr (10, s4)"
    by (simp add: astype_def ea_astype_def Index_new_def is_dtype_equal_def new_object_def
        deref_def Let_def sample_defs)
  from mutators_leave_original [OF sample_store_wf sample_store_0] d r i a sample_store_0
    sample_store_wf
  show ?thesis by simp
qed

section \<open>Delete and insert\<close>

text \<open>
  C8, as stated, fails at a negative position: deleting position \<open>-1\<close> of the index over
  10, 20, 30 removes the last element, and inserting 30 back at position \<open>-1\<close> puts it before
  the last element of what is left, giving 10, 30, 20, which does not equal the original.
\<close>

theorem delete_insert_negative_counterexample:
  "(case delete pandas_env sample_store 0 [-1] of
      Inl err \<Rightarrow> None
    | Inr (r1, s1) \<Rightarrow>
        (case insert_index 1 pandas_env s1 r1 (-1) (SInt 30) of
           Inl err \<Rightarrow> None
         | Inr (r2, s2) \<Rightarrow>
             Some (avals (data (deref s1 r1)), avals (data (deref s2 r2)),
                   equals s2 r2 (PIndex 0))))
   = Some ([SInt 10, SInt 20], [SInt 10, SInt 30, SInt 20], False)"
  by (simp add: delete_def ea_delete_def simple_new_def new_object_def ea_insert_def
      equals_def is_same_def ea_equals_def deref_def Let_def sample_defs)

text \<open>
  C8, amended. For a position \<open>p\<close> with \<open>0 \<le> p < n\<close> of a well-formed index (its array is
  of the class its index class declares, and the element at \<open>p\<close> is a valid scalar of its
  dtype): \<open>delete\<close> at \<open>p\<close> returns an index, \<open>insert\<close> of the original element at \<open>p\<close> into
  it returns an index, and that index and the original are equal by \<open>equals\<close>, either way
  round.
\<close>

theorem delete_insert_roundtrip:
  assumes "wf_store s" and "heap s self = Some obj"
    and "data_cls e (cls obj) = Some dc" and "issubclass (acls (data obj)) dc"
    and "p < length (avals (data obj))"
    and "validate_scalar e (adtype (data obj)) (avals (data obj) ! p) = Inr (avals (data obj) ! p)"
  shows "\<exists>r1 s1 r2 s2.
           delete e s self [int p] = Inr (r1, s1)
           \<and> insert_index (Suc depth) e s1 r1 (int p) (avals (data obj) ! p) = Inr (r2, s2)
           \<and> equals s2 r2 (PIndex self) \<and> equals s2 self (PIndex r2)"
proof -
  let ?xs = "avals (data obj)"
  let ?ys = "take p ?xs @ drop (Suc p) ?xs"
  let ?arr = "(data obj)\<lparr>avals := ?ys\<rparr>"
  from assms(2) have d: "deref s self = obj" by (simp add: deref_def)
  have del: "ea_delete (data obj) [int p] = Inr ?arr"
    using assms(5) delete_positions_single [of 0 p ?xs]
    by (simp add: ea_delete_def Let_def)
  obtain r1 s1 where n1: "new_object s (cls obj) ?arr (name obj) = (r1, s1)"
    by (cases "new_object s (cls obj) ?arr (name obj)")
  have sn1: "simple_new e s (cls obj) ?arr (name obj) = Inr (r1, s1)"
    using assms(3,4) n1 by (simp add: simple_new_def)
  have d1: "delete e s self [int p] = Inr (r1, s1)"
    by (simp add: delete_def d del sn1)
  from simple_new_props [OF assms(1) sn1] have
    w1: "wf_store s1" and e1: "extends s s1"
    and h1: "heap s1 r1 = Some \<lparr>cls = cls obj, data = ?arr, name = name obj,
                                 ident = Suc (fresh s), cache = []\<rparr>"
    by auto
  have len: "length ?ys = length ?xs - 1"
    using assms(5) by auto
  have ins: "ea_insert e ?arr (int p) (?xs ! p) = Inr (data obj)"
    using assms(5,6) reinsert_deleted [OF assms(5)] len
    by (simp add: ea_insert_def Let_def)
  obtain r2 s2 where n2: "new_object s1 (cls obj) (data obj) (name obj) = (r2, s2)"
    by (cases "new_object s1 (cls obj) (data obj) (name obj)")
  have sn2: "simple_new e s1 (cls obj) (data obj) (name obj) = Inr (r2, s2)"
    using assms(3,4) n2 by (simp add: simple_new_def)
  have i2: "insert_index (Suc depth) e s1 r1 (int p) (?xs ! p) = Inr (r2, s2)"
    using h1 ins sn2 by (simp add: deref_def)
  from simple_new_props [OF w1 sn2] have
    e2: "extends s1 s2"
    and h2: "heap s2 r2 = Some \<lparr>cls = cls obj, data = data obj, name = name obj,
                                 ident = Suc (fresh s1), cache = []\<rparr>"
    by auto
  from assms(2) e1 e2 have hs: "heap s2 self = Some obj" by (simp add: extends_def)
  have "equals s2 r2 (PIndex self)" "equals s2 self (PIndex r2)"
    using h2 hs by (simp_all add: equals_def deref_def ea_equals_def issubclass_refl)
  with d1 i2 show ?thesis by blast
qed

theorem delete_insert_roundtrip_witness:
  "wf_store sample_store
   \<and> heap sample_store 0 =
       Some \<lparr>cls = DatetimeIndex, data = dates, name = Some ''x'', ident = 1, cache = []\<rparr>
   \<and> data_cls pandas_env DatetimeIndex = Some DatetimeArray
   \<and> issubclass (acls dates) DatetimeArray
   \<and> 1 < length (avals dates)
   \<and> validate_scalar pandas_env (adtype dates) (avals dates ! 1) = Inr (avals dates ! 1)
   \<and> (\<exists>r1 s1 r2 s2.
         delete pandas_env sample_store 0 [1] = Inr (r1, s1)
         \<and> insert_index 1 pandas_env s1 r1 1 (avals dates ! 1) = Inr (r2, s2)
         \<and> equals s2 r2 (PIndex 0) \<and> equals s2 0 (PIndex r2))"
proof -
  have a: "data_cls pandas_env DatetimeIndex = Some DatetimeArray"
    by (simp add: pandas_env_def issubclass_refl)
  have b: "issubclass (acls dates) DatetimeArray"
    by (simp add: dates_def issubclass_refl)
  have c: "1 < length (avals dates)"
    by (simp add: dates_def)
  have d: "validate_scalar pandas_env (adtype dates) (avals dates ! 1) = Inr (avals dates ! 1)"
    by (simp add: pandas_env_def dates_def M8ns_def)
  have "\<exists>r1 s1 r2 s2.
         delete pandas_env sample_store 0 [int 1] = Inr (r1, s1)
         \<and> insert_index (Suc 0) pandas_env s1 r1 (int 1) (avals dates ! 1) = Inr (r2, s2)
         \<and> equals s2 r2 (PIndex 0) \<and> equals s2 0 (PIndex r2)"
    using delete_insert_roundtrip [OF sample_store_wf sample_store_0,
        of pandas_env DatetimeArray 1 0] a b c d
    by simp
  then have "\<exists>r1 s1 r2 s2.
         delete pandas_env sample_store 0 [1] = Inr (r1, s1)
         \<and> insert_index 1 pandas_env s1 r1 1 (avals dates ! 1) = Inr (r2, s2)
         \<and> equals s2 r2 (PIndex 0) \<and> equals s2 0 (PIndex r2)"
    by (simp only: of_nat_1 One_nat_def [symmetric])
  with sample_store_wf sample_store_0 a b c d show ?thesis by blast
qed

section \<open>Insert with dtype widening\<close>




section \<open>The name of an arithmetic result\<close>

text \<open>
  C3. When an arithmetic operator of the array returns an array, a pair of arrays (divmod)
  or an index, the operator of the index returns it wrapped as an index, or a pair of
  indexes, and each carries this name: when both operands are named indexes or series and
  the two names agree, that name; when the names differ, or one operand has no name or is
  not an index or series, no name.
\<close>

theorem arith_result_name:
  assumes "wf_store s" and "heap s self = Some obj"
    and "\<forall>ro. other = PIndex ro \<longrightarrow> heap s ro \<noteq> None"
    and "\<not> defers_to_other s other"
    and "ea_getattr e (data obj) opname = Some meth"
  shows
    "(meth (maybe_unwrap_index s other) = Inr (PArray arr) \<longrightarrow>
        (\<exists>r s'. make_wrapped_arith_op e opname s self other = Inr (PIndex r, s')
           \<and> name (deref s' r) =
               (if name obj \<noteq> None \<and> name obj = operand_name s other then name obj else None)))
     \<and> (meth (maybe_unwrap_index s other) = Inr (PTuple [PArray a, PArray b]) \<longrightarrow>
        (\<exists>ra rb s'. make_wrapped_arith_op e opname s self other
                       = Inr (PTuple [PIndex ra, PIndex rb], s')
           \<and> name (deref s' ra) =
               (if name obj \<noteq> None \<and> name obj = operand_name s other then name obj else None)
           \<and> name (deref s' rb) =
               (if name obj \<noteq> None \<and> name obj = operand_name s other then name obj else None)))
     \<and> (meth (maybe_unwrap_index s other) = Inr (PIndex rr) \<longrightarrow>
        (\<exists>s'. make_wrapped_arith_op e opname s self other = Inr (PIndex rr, s')
           \<and> name (deref s' rr) =
               (if name obj \<noteq> None \<and> name obj = operand_name s other then name obj else None)))"
proof -
  let ?N = "if name obj \<noteq> None \<and> name obj = operand_name s other then name obj else None"
  from assms(2) have d: "deref s self = obj" by (simp add: deref_def)
  have N: "get_op_result_name s self other = ?N"
    by (rule get_op_result_name_eq [OF assms(2)])
  have mk: "make_wrapped_arith_op e opname s self other = wrap_arithmetic_op e s self other res"
    if "meth (maybe_unwrap_index s other) = Inr res" for res
    using that assms(4,5) by (simp add: make_wrapped_arith_op_def d)
  have one: "\<exists>r s'. make_wrapped_arith_op e opname s self other = Inr (PIndex r, s')
           \<and> name (deref s' r) = ?N"
    if m: "meth (maybe_unwrap_index s other) = Inr (PArray arr)"
  proof -
    from wrap_array [OF assms(1,2,3), of e arr] N mk [OF m] show ?thesis
      by (auto simp: deref_def)
  qed
  have two: "\<exists>ra rb s'. make_wrapped_arith_op e opname s self other
                       = Inr (PTuple [PIndex ra, PIndex rb], s')
           \<and> name (deref s' ra) = ?N \<and> name (deref s' rb) = ?N"
    if m: "meth (maybe_unwrap_index s other) = Inr (PTuple [PArray a, PArray b])"
  proof -
    from wrap_array [OF assms(1,2,3), of e a] obtain ra s1 oa where
      wa: "wrap_arithmetic_op e s self other (PArray a) = Inr (PIndex ra, s1)"
      and w1: "wf_store s1" and e1: "extends s s1"
      and ha: "heap s1 ra = Some oa" and na: "name oa = get_op_result_name s self other"
      by blast
    from assms(2) e1 have hs1: "heap s1 self = Some obj" by (simp add: extends_def)
    from assms(3) e1 have live1: "\<forall>ro. other = PIndex ro \<longrightarrow> heap s1 ro \<noteq> None"
      by (auto simp: extends_def)
    from wrap_array [OF w1 hs1 live1, of e b] obtain rb s2 ob where
      wb: "wrap_arithmetic_op e s1 self other (PArray b) = Inr (PIndex rb, s2)"
      and e2: "extends s1 s2"
      and hb: "heap s2 rb = Some ob" and nb: "name ob = get_op_result_name s1 self other"
      by blast
    have "get_op_result_name s1 self other = get_op_result_name s self other"
      by (rule get_op_result_name_extends [OF e1 assms(2,3)])
    with nb N have nb': "name ob = ?N" by simp
    from ha e2 have ha2: "heap s2 ra = Some oa" by (simp add: extends_def)
    have "make_wrapped_arith_op e opname s self other = Inr (PTuple [PIndex ra, PIndex rb], s2)"
      using mk [OF m] wa wb by simp
    with ha2 hb na nb' N show ?thesis by (auto simp: deref_def)
  qed
  have three: "\<exists>s'. make_wrapped_arith_op e opname s self other = Inr (PIndex rr, s')
           \<and> name (deref s' rr) = ?N"
    if m: "meth (maybe_unwrap_index s other) = Inr (PIndex rr)"
    using mk [OF m] N by (simp add: deref_def)
  from one two three show ?thesis by blast
qed

theorem arith_result_name_witness:
  "wf_store sample_store
   \<and> heap sample_store 0 =
       Some \<lparr>cls = DatetimeIndex, data = dates, name = Some ''x'', ident = 1, cache = []\<rparr>
   \<and> heap sample_store 2 \<noteq> None \<and> heap sample_store 8 \<noteq> None
   \<and> \<not> defers_to_other sample_store (PIndex 2) \<and> \<not> defers_to_other sample_store (PIndex 8)
   \<and> ea_getattr pandas_env dates ''__sub__'' = Some (\<lambda>other. Inr (PArray dates))
   \<and> ea_getattr pandas_env dates ''__divmod__''
       = Some (\<lambda>other. Inr (PTuple [PArray dates, PArray dates]))
   \<and> (\<exists>r s'. make_wrapped_arith_op pandas_env ''__sub__'' sample_store 0 (PIndex 2)
                = Inr (PIndex r, s')
          \<and> name (deref s' r) = Some ''x'')
   \<and> (\<exists>r s'. make_wrapped_arith_op pandas_env ''__sub__'' sample_store 0 (PIndex 8)
                = Inr (PIndex r, s')
          \<and> name (deref s' r) = None)
   \<and> (\<exists>ra rb s'. make_wrapped_arith_op pandas_env ''__divmod__'' sample_store 0 (PIndex 2)
                = Inr (PTuple [PIndex ra, PIndex rb], s')
          \<and> name (deref s' ra) = Some ''x'' \<and> name (deref s' rb) = Some ''x'')
   \<and> (\<exists>s'. make_wrapped_arith_op
               (pandas_env\<lparr>ea_getattr := (\<lambda>arr opname. Some (\<lambda>other. Inr (PIndex 8)))\<rparr>)
               ''__sub__'' sample_store 0 (PIndex 2)
                = Inr (PIndex 8, s')
          \<and> name (deref s' 8) = Some ''x'')"
proof -
  let ?obj = "\<lparr>cls = DatetimeIndex, data = dates, name = Some ''x'', ident = 1, cache = []\<rparr>"
  let ?env = "pandas_env\<lparr>ea_getattr := (\<lambda>arr opname. Some (\<lambda>other. Inr (PIndex 8)))\<rparr>"
  have l2: "heap sample_store 2 \<noteq> None" and l8: "heap sample_store 8 \<noteq> None"
    by (simp_all add: sample_store_def)
  then have live2: "\<forall>ro. PIndex 2 = PIndex ro \<longrightarrow> heap sample_store ro \<noteq> None"
    and live8: "\<forall>ro. PIndex 8 = PIndex ro \<longrightarrow> heap sample_store ro \<noteq> None"
    by simp_all
  have sub: "ea_getattr pandas_env (data ?obj) ''__sub__'' = Some (\<lambda>other. Inr (PArray dates))"
    by (simp add: pandas_env_def dates_def DatetimeArray_def Categorical_def)
  have dm: "ea_getattr pandas_env (data ?obj) ''__divmod__''
              = Some (\<lambda>other. Inr (PTuple [PArray dates, PArray dates]))"
    by (simp add: pandas_env_def dates_def DatetimeArray_def Categorical_def)
  have ix: "ea_getattr ?env (data ?obj) ''__sub__'' = Some (\<lambda>other. Inr (PIndex 8))"
    by simp
  have a: "\<exists>r s'. make_wrapped_arith_op pandas_env ''__sub__'' sample_store 0 (PIndex 2)
                = Inr (PIndex r, s')
          \<and> name (deref s' r) = Some ''x''"
    using arith_result_name [OF sample_store_wf sample_store_0 live2 sample_not_deferring(1) sub,
        of dates dates dates 0]
    by (simp add: sample_operand_names)
  have b: "\<exists>r s'. make_wrapped_arith_op pandas_env ''__sub__'' sample_store 0 (PIndex 8)
                = Inr (PIndex r, s')
          \<and> name (deref s' r) = None"
    using arith_result_name [OF sample_store_wf sample_store_0 live8 sample_not_deferring(2) sub,
        of dates dates dates 0]
    by (simp add: sample_operand_names)
  have c: "\<exists>ra rb s'. make_wrapped_arith_op pandas_env ''__divmod__'' sample_store 0 (PIndex 2)
                = Inr (PTuple [PIndex ra, PIndex rb], s')
          \<and> name (deref s' ra) = Some ''x'' \<and> name (deref s' rb) = Some ''x''"
    using arith_result_name [OF sample_store_wf sample_store_0 live2 sample_not_deferring(1) dm,
        of dates dates dates 0]
    by (simp add: sample_operand_names)
  have d: "\<exists>s'. make_wrapped_arith_op ?env ''__sub__'' sample_store 0 (PIndex 2)
                = Inr (PIndex 8, s')
          \<and> name (deref s' 8) = Some ''x''"
    using arith_result_name [OF sample_store_wf sample_store_0 live2 sample_not_deferring(1) ix,
        of dates dates dates 8]
    by (simp add: sample_operand_names)
  from sub have sub': "ea_getattr pandas_env dates ''__sub__'' = Some (\<lambda>other. Inr (PArray dates))"
    by simp
  from dm have dm': "ea_getattr pandas_env dates ''__divmod__''
              = Some (\<lambda>other. Inr (PTuple [PArray dates, PArray dates]))"
    by simp
  from sample_store_wf sample_store_0 l2 l8 sample_not_deferring sub' dm' a b c d
  show ?thesis by blast
qed

end
